theory Spec2Isabelle
  imports Main "HOL-Library.Word"
begin

section \<open>The HAProxy ingress controller orchestrator (pkg/controller/controller.go)\<close>

text \<open>
  The orchestrator is a Go struct \<open>HAProxyController\<close> whose methods wire together a
  number of collaborators (work queues, a leader elector, the proxy instance, the
  generic controller). The struct is embedded as a record, every method as a function
  that takes the struct and returns an outcome together with the updated struct.
  A call into a collaborator is recorded as an event appended to \<open>trace\<close>, in
  program order; a \<open>go\<close> statement is recorded at the point where the goroutine is
  spawned. Pointers and interface values are options: \<open>None\<close> is Go's \<open>nil\<close>, and a
  method call or dereference on \<open>nil\<close> is the outcome \<open>Panic\<close>. \<open>glog.Fatalf\<close> and
  \<open>logger.Fatal\<close> terminate the process: the outcome \<open>Fatal\<close>.
\<close>

subsection \<open>Data model\<close>

text \<open>Go's \<open>int\<close> on the 64-bit targets of the controller; \<open>++\<close> wraps around.\<close>

type_synonym go_int = "64 word"

text \<open>The two work queues of the struct, as names of the queue objects.\<close>

datatype qid = IngressQ | AcmeQ

text \<open>Arguments of a formatted log line: \<open>%d\<close> of a counter or \<open>%v\<close> of a duration
  (a 64-bit integer), and the \<open>%s\<close> of \<open>timer.AsString(label)\<close>.\<close>

datatype logarg = IntArg go_int | TimerArg string

record InstanceOptions =
  HAProxyCfgDir :: string
  BackendShards :: int
  AcmeSigner :: bool
  AcmeQueue :: "qid option"
  LeaderElector :: "string option"
  Metrics :: bool
  ReloadStrategy :: string
  MaxOldConfigFiles :: go_int
  SortEndpointsBy :: string
  ValidateConfig :: bool

datatype event =
    GlogWarning string
  | GlogInfo string "logarg list"
  | LoggerInfo string "logarg list"
  | NewTimer
  | InstanceConfig
  | ConverterSync
  | InstanceUpdate
  | CreateInstance InstanceOptions
  | ParseTemplates
  | CacheRunAsync
  | QueueRun qid
  | QueueShutDown qid
  | QueueClear qid
  | IdleMetricLoop int
  | ElectorRun string
  | AcmeServerListen string
  | AcmePeriodicCheck int
  | ControllerStartAsync
  | StopSignal
  | ControllerStop
  | Sleep "64 word"
  | SignerNotify string

datatype outcome = Done | Blocked | Fatal string | Panic string

text \<open>The fields of \<open>controller.Configuration\<close> that controller.go reads. Durations
  are \<open>time.Duration\<close> values, in nanoseconds.\<close>

record Configuration =
  RateLimitUpdate :: int
  AllowCrossNamespace :: bool
  AcmeServer :: bool
  AcmeElectionID :: string
  IngressClass :: string
  AcmeFailInitialDuration :: int
  AcmeFailMaxDuration :: int
  AcmeCheckPeriod :: int
  AcmeTrackTLSAnn :: bool
  StatsCollectProcPeriod :: int
  WaitBeforeShutdown :: go_int
  CfgBackendShards :: int
  CfgSortEndpointsBy :: string
  MasterSocket :: string
  AnnPrefix :: string
  DefaultService :: string
  DefaultSSLCertificate :: string

text \<open>
  Modelled from the spec: the queue type \<open>utils.Queue\<close> (pkg/utils, not part of
  controller.go). Section 4.1: \<open>ShutDown()\<close> stops the queue and \<open>ShuttingDown()\<close> is
  observable afterwards; section 4.2: \<open>Clear()\<close> discards all pending items; \<open>Run()\<close>
  takes the next pending item and invokes the registered handler on it.
\<close>

record Queue =
  shuttingDown :: bool
  pending :: "string list"

definition newQueue :: Queue where
  "newQueue = \<lparr>shuttingDown = False, pending = []\<rparr>"

definition ShuttingDown :: "Queue \<Rightarrow> bool" where
  "ShuttingDown q = shuttingDown q"

definition ShutDown :: "Queue \<Rightarrow> Queue" where
  "ShutDown q = q\<lparr>shuttingDown := True\<rparr>"

definition Clear :: "Queue \<Rightarrow> Queue" where
  "Clear q = q\<lparr>pending := []\<rparr>"

text \<open>
  Modelled from the spec: the generic controller \<open>controller.GenericController\<close>
  (pkg/common/ingress/controller). Section 6: it supplies the operator configuration
  and the stop channel; section 5: shutdown is a one-shot broadcast stop signal, here
  the flag \<open>stopClosed\<close> of the channel that \<open>GetStopCh()\<close> returns.
\<close>

record GenericController =
  gcConfig :: Configuration
  stopClosed :: bool

record ConverterOptions =
  coMasterSocket :: string
  coAnnotationPrefix :: string
  coDefaultBackend :: string
  coDefaultCrtSecret :: string
  coFakeCrtFile :: string
  coFakeCAFile :: string
  coAcmeTrackTLSAnn :: bool
  coHasGateway :: bool

text \<open>
  The struct \<open>HAProxyController\<close>. \<open>instance'\<close> is the field \<open>instance\<close>; an instance is
  represented by the options it was created with. \<open>stopCh\<close> tells whether the field
  holds the generic controller's stop channel (\<open>False\<close>: the nil channel). The field
  \<open>configMap\<close> is only written, by \<open>SetConfig\<close>, and is left out.
\<close>

record HAProxyController =
  instance' :: "InstanceOptions option"
  logger :: "nat option"
  cache :: bool
  metrics :: bool
  tracker :: bool
  stopCh :: bool
  ingressQueue :: "Queue option"
  acmeQueue :: "Queue option"
  leaderelector :: "string option"
  updateCount :: go_int
  controller :: "GenericController option"
  cfg :: "Configuration option"
  converterOptions :: "ConverterOptions option"
  dynamicConfig :: "bool option"
  reloadStrategy :: "string option"
  maxOldConfigFiles :: "go_int option"
  validateConfig :: "bool option"
  trace :: "event list"

definition emit :: "event \<Rightarrow> HAProxyController \<Rightarrow> HAProxyController" where
  "emit e hc = hc\<lparr>trace := trace hc @ [e]\<rparr>"

text \<open>\<open>NewHAProxyController\<close> returns \<open>&HAProxyController{}\<close>: every field is zero.\<close>

definition NewHAProxyController :: HAProxyController where
  "NewHAProxyController =
     \<lparr>instance' = None, logger = None, cache = False, metrics = False, tracker = False,
      stopCh = False, ingressQueue = None, acmeQueue = None, leaderelector = None,
      updateCount = 0, controller = None, cfg = None, converterOptions = None,
      dynamicConfig = None, reloadStrategy = None, maxOldConfigFiles = None,
      validateConfig = None, trace = []\<rparr>"

subsection \<open>Sequencing\<close>

text \<open>A step that does not return normally (a fatal exit, a panic, a blocked receive)
  ends the run: the steps after it are not executed.\<close>

definition andThen ::
  "outcome \<times> HAProxyController \<Rightarrow> (HAProxyController \<Rightarrow> outcome \<times> HAProxyController)
     \<Rightarrow> outcome \<times> HAProxyController" where
  "andThen r f = (case r of (Done, hc) \<Rightarrow> f hc | _ \<Rightarrow> r)"

subsection \<open>The environment of a run\<close>

text \<open>
  What the collaborators answer during start-up: the values given on the command line
  for the three flags of \<open>ConfigureFlags\<close> (\<open>None\<close>: flag not given), the
  configuration that \<open>GetConfig()\<close> returns, the errors (\<open>None\<close>: nil) returned by
  \<open>ParseTemplates\<close>, \<open>ssl.AddCertAuth\<close> and \<open>server.Listen\<close>, the file names of the
  generated certificates and the answer of \<open>cache.hasGateway()\<close>.
\<close>

record env =
  argReloadStrategy :: "string option"
  argMaxOldConfigFiles :: "go_int option"
  argValidateConfig :: "bool option"
  envConfig :: Configuration
  parseTemplatesErr :: "string option"
  addCertAuthErr :: "string option"
  listenErr :: "string option"
  fakeCrtFile :: string
  fakeCAFile :: string
  hasGateway :: bool

subsection \<open>Flags\<close>

text \<open>\<open>ConfigureFlags\<close> registers the three flags with their defaults; the struct keeps
  the pointers to the flag values. The default \<open>haproxy\<close> that it also sets for the flag
  \<open>ingress-class\<close> of the generic controller reaches this file through the
  configuration (\<open>IngressClass\<close>).\<close>

definition ConfigureFlags :: "HAProxyController \<Rightarrow> HAProxyController" where
  "ConfigureFlags hc =
     hc\<lparr>reloadStrategy := Some ''reusesocket'',
        maxOldConfigFiles := Some 0,
        validateConfig := Some False\<rparr>"

text \<open>\<open>OverrideFlags\<close>: the allow-list of reload strategies.\<close>

definition OverrideFlags :: "HAProxyController \<Rightarrow> outcome \<times> HAProxyController" where
  "OverrideFlags hc =
     (case reloadStrategy hc of
        None \<Rightarrow> (Panic ''nil reloadStrategy'', hc)
      | Some rs \<Rightarrow>
          if \<not> (rs = ''native'' \<or> rs = ''reusesocket'' \<or> rs = ''multibinder'')
          then (Fatal (''Unsupported reload strategy: '' @ rs), hc)
          else (Done, hc))"

text \<open>
  Modelled from the spec: the parsing of the command line into the registered flags
  (the flag library), which stores a value given on the command line in the flag's
  variable and leaves the default otherwise.
\<close>

definition parseFlags :: "env \<Rightarrow> HAProxyController \<Rightarrow> HAProxyController" where
  "parseFlags e hc =
     hc\<lparr>reloadStrategy :=
          (case argReloadStrategy e of None \<Rightarrow> reloadStrategy hc | Some v \<Rightarrow> Some v),
        maxOldConfigFiles :=
          (case argMaxOldConfigFiles e of None \<Rightarrow> maxOldConfigFiles hc | Some v \<Rightarrow> Some v),
        validateConfig :=
          (case argValidateConfig e of None \<Rightarrow> validateConfig hc | Some v \<Rightarrow> Some v)\<rparr>"

text \<open>
  Modelled from the spec: \<open>controller.NewIngressController\<close> (pkg/common/ingress/controller),
  called first by \<open>Start\<close>. The doc comments of controller.go give its protocol:
  \<open>ConfigureFlags\<close> is called before the parsing of the command line, \<open>OverrideFlags\<close>
  after it; section 4.4 of the spec: the reload strategy is validated at startup, before
  any queue starts. It returns the generic controller, which \<open>Start\<close> stores in the
  field \<open>controller\<close>.
\<close>

definition NewIngressController :: "env \<Rightarrow> HAProxyController \<Rightarrow> outcome \<times> HAProxyController" where
  "NewIngressController e hc =
     andThen (OverrideFlags (parseFlags e (ConfigureFlags hc)))
       (\<lambda>hc1. (Done, hc1\<lparr>controller := Some \<lparr>gcConfig = envConfig e, stopClosed = False\<rparr>\<rparr>))"

subsection \<open>Configuration of the components\<close>

text \<open>The message of the deprecation warning of \<open>configController\<close>.\<close>

definition multibinderWarning :: string where
  "multibinderWarning = ''multibinder is deprecated, using reusesocket strategy instead. update your deployment configuration''"

text \<open>\<open>fmt.Sprintf("%s-%s", hc.cfg.AcmeElectionID, hc.cfg.IngressClass)\<close>\<close>

definition electorID :: "Configuration \<Rightarrow> string" where
  "electorID c = AcmeElectionID c @ ''-'' @ IngressClass c"

text \<open>
  \<open>configController\<close>. The constructors of the collaborators (\<open>NewRateLimitingQueue\<close>,
  \<open>NewLeaderElector\<close>, \<open>acme.NewSigner\<close>, \<open>NewFailureRateLimitingQueue\<close>,
  \<open>haproxy.CreateInstance\<close>, ...) return a new, non-nil object. The local variable
  \<open>acmeSigner\<close> is \<open>True\<close> when it holds a signer. Of \<open>InstanceOptions\<close> the fields
  \<open>HAProxyMapsDir\<close> (a constant of another package) and \<open>StopCh\<close> are left out. The
  call \<open>hc.controller.SetNewCtrl(hc)\<close> registers the struct with the generic controller
  and changes no field. \<open>createFakeCrtFile\<close> and \<open>createFakeCAFile\<close> are the two file
  names of the environment; the second ends the process when \<open>ssl.AddCertAuth\<close> fails.
\<close>

definition configController :: "env \<Rightarrow> HAProxyController \<Rightarrow> outcome \<times> HAProxyController" where
  "configController e hc =
     (case reloadStrategy hc of
        None \<Rightarrow> (Panic ''nil reloadStrategy'', hc)
      | Some rs \<Rightarrow>
          let hc1 = (if rs = ''multibinder''
                     then emit (GlogWarning multibinderWarning) hc
                     else hc) in
          (case controller hc1 of
             None \<Rightarrow> (Panic ''nil controller'', hc1)
           | Some gc \<Rightarrow>
               let c = gcConfig gc;
                   hc2 = hc1\<lparr>cfg := Some c, stopCh := True, logger := Some 1,
                            metrics := True, ingressQueue := Some newQueue,
                            tracker := True,
                            dynamicConfig := Some (AllowCrossNamespace c),
                            cache := True\<rparr>;
                   acmeSigner = AcmeServer c;
                   hc3 = (if AcmeServer c
                          then hc2\<lparr>leaderelector := Some (electorID c),
                                   acmeQueue := Some newQueue\<rparr>
                          else hc2)
               in
               (case maxOldConfigFiles hc3 of
                  None \<Rightarrow> (Panic ''nil maxOldConfigFiles'', hc3)
                | Some m \<Rightarrow>
                    (case validateConfig hc3 of
                       None \<Rightarrow> (Panic ''nil validateConfig'', hc3)
                     | Some v \<Rightarrow>
                         let instanceOptions =
                               \<lparr>HAProxyCfgDir = ''/etc/haproxy'',
                                BackendShards = CfgBackendShards c,
                                AcmeSigner = acmeSigner,
                                AcmeQueue = (case acmeQueue hc3 of None \<Rightarrow> None
                                             | Some _ \<Rightarrow> Some AcmeQ),
                                LeaderElector = leaderelector hc3,
                                Metrics = metrics hc3,
                                ReloadStrategy = rs,
                                MaxOldConfigFiles = m,
                                SortEndpointsBy = CfgSortEndpointsBy c,
                                ValidateConfig = v\<rparr>;
                             hc4 = emit ParseTemplates
                                     (emit (CreateInstance instanceOptions)
                                        (hc3\<lparr>instance' := Some instanceOptions\<rparr>))
                         in
                         (case parseTemplatesErr e of
                            Some err \<Rightarrow>
                              (Fatal (''error creating HAProxy instance: '' @ err), hc4)
                          | None \<Rightarrow>
                              (case addCertAuthErr e of
                                 Some err \<Rightarrow>
                                   (Fatal (''error generating fake CA: '' @ err), hc4)
                               | None \<Rightarrow>
                                   (Done,
                                    hc4\<lparr>converterOptions := Some
                                      \<lparr>coMasterSocket = MasterSocket c,
                                       coAnnotationPrefix = AnnPrefix c,
                                       coDefaultBackend = DefaultService c,
                                       coDefaultCrtSecret = DefaultSSLCertificate c,
                                       coFakeCrtFile = fakeCrtFile e,
                                       coFakeCAFile = fakeCAFile e,
                                       coAcmeTrackTLSAnn = AcmeTrackTLSAnn c,
                                       coHasGateway = hasGateway e\<rparr>\<rparr>)))))))"

subsection \<open>Starting and stopping the services\<close>

text \<open>\<open>Duration.Milliseconds()\<close>: integer division truncating towards zero.\<close>

definition Milliseconds :: "int \<Rightarrow> int" where
  "Milliseconds d = (if 0 \<le> d then d div 1000000 else - ((- d) div 1000000))"

text \<open>The block of \<open>startServices\<close> guarded by \<open>hc.cfg.AcmeServer\<close>.\<close>

definition startAcme :: "env \<Rightarrow> Configuration \<Rightarrow> HAProxyController \<Rightarrow> outcome \<times> HAProxyController" where
  "startAcme e c hc =
     (let hc1 = emit (AcmeServerListen ''/var/run/haproxy/acme.sock'') hc in
      case listenErr e of
        Some err \<Rightarrow> (Fatal (''error creating the acme server listener: '' @ err), hc1)
      | None \<Rightarrow>
          (case acmeQueue hc1 of
             None \<Rightarrow> (Panic ''nil acmeQueue'', hc1)
           | Some _ \<Rightarrow>
               (Done, emit (AcmePeriodicCheck (AcmeCheckPeriod c))
                        (emit (QueueRun AcmeQ) hc1))))"

definition startServices :: "env \<Rightarrow> HAProxyController \<Rightarrow> outcome \<times> HAProxyController" where
  "startServices e hc =
     (if \<not> cache hc then (Panic ''nil cache'', hc)
      else
        let hc1 = emit CacheRunAsync hc in
        (case ingressQueue hc1 of
           None \<Rightarrow> (Panic ''nil ingressQueue'', hc1)
         | Some _ \<Rightarrow>
             let hc2 = emit (QueueRun IngressQ) hc1 in
             (case cfg hc2 of
                None \<Rightarrow> (Panic ''nil cfg'', hc2)
              | Some c \<Rightarrow>
                  let hc3 = (if Milliseconds (StatsCollectProcPeriod c) > 0
                             then emit (IdleMetricLoop (StatsCollectProcPeriod c)) hc2
                             else hc2);
                      hc4 = (case leaderelector hc3 of
                               None \<Rightarrow> hc3
                             | Some le \<Rightarrow> emit (ElectorRun le) hc3)
                  in
                  andThen (if AcmeServer c then startAcme e c hc4 else (Done, hc4))
                    (\<lambda>hc5. case controller hc5 of
                              None \<Rightarrow> (Panic ''nil controller'', hc5)
                            | Some _ \<Rightarrow> (Done, emit ControllerStartAsync hc5)))))"

text \<open>\<open>stopServices\<close>\<close>

definition stopServices :: "HAProxyController \<Rightarrow> outcome \<times> HAProxyController" where
  "stopServices hc =
     (case ingressQueue hc of
        None \<Rightarrow> (Panic ''nil ingressQueue'', hc)
      | Some q \<Rightarrow>
          let hc1 = emit (QueueShutDown IngressQ) (hc\<lparr>ingressQueue := Some (ShutDown q)\<rparr>) in
          (case acmeQueue hc1 of
             None \<Rightarrow> (Done, hc1)
           | Some a \<Rightarrow>
               (Done, emit (QueueShutDown AcmeQ) (hc1\<lparr>acmeQueue := Some (ShutDown a)\<rparr>))))"


subsection \<open>The life cycle\<close>

text \<open>The log line of \<open>Start\<close> after \<open>startServices\<close>.\<close>

definition logInit :: "HAProxyController \<Rightarrow> outcome \<times> HAProxyController" where
  "logInit hc =
     (case logger hc of
        None \<Rightarrow> (Panic ''nil logger'', hc)
      | Some _ \<Rightarrow>
          (Done, emit (LoggerInfo ''HAProxy Ingress successfully initialized'' []) hc))"

text \<open>
  \<open>Start\<close> up to the receive on the stop channel: \<open>NewIngressController\<close>,
  \<open>configController\<close>, \<open>startServices\<close> and the log line.
\<close>

definition startUp :: "env \<Rightarrow> HAProxyController \<Rightarrow> outcome \<times> HAProxyController" where
  "startUp e hc =
     andThen (NewIngressController e hc)
       (\<lambda>hc1. andThen (configController e hc1)
          (\<lambda>hc2. andThen (startServices e hc2) logInit))"

text \<open>
  The rest of \<open>Start\<close>: the receive \<open>\<open><-hc.stopCh\<close>\<close> followed by \<open>stopServices\<close>. A receive
  on the nil channel, or on a channel on which the stop signal has not been delivered,
  blocks.
\<close>

definition awaitStop :: "HAProxyController \<Rightarrow> outcome \<times> HAProxyController" where
  "awaitStop hc =
     (case controller hc of
        None \<Rightarrow> (Blocked, hc)
      | Some gc \<Rightarrow>
          if stopCh hc \<and> stopClosed gc then stopServices hc else (Blocked, hc))"

text \<open>\<open>Start\<close>. Run on its own it ends \<open>Blocked\<close> in its receive when the start-up has
  completed: nothing has delivered the stop signal yet.\<close>

definition Start :: "env \<Rightarrow> HAProxyController \<Rightarrow> outcome \<times> HAProxyController" where
  "Start e hc = andThen (startUp e hc) awaitStop"



subsection \<open>Leadership callbacks and the certificate queue\<close>

text \<open>\<open>OnStoppedLeading\<close>: \<open>hc.acmeQueue.Clear()\<close>, a method call on an interface value.\<close>

definition OnStoppedLeading :: "HAProxyController \<Rightarrow> outcome \<times> HAProxyController" where
  "OnStoppedLeading hc =
     (case acmeQueue hc of
        None \<Rightarrow> (Panic ''nil acmeQueue'', hc)
      | Some q \<Rightarrow> (Done, emit (QueueClear AcmeQ) (hc\<lparr>acmeQueue := Some (Clear q)\<rparr>)))"

text \<open>
  Modelled from the spec: enqueueing on a queue and the worker of the Failure-Backoff
  Queue (pkg/utils). Section 4.1: \<open>Enqueue(key)\<close> adds or coalesces a task and is a no-op
  after \<open>ShutDown()\<close>; the worker takes the next pending item and invokes the registered
  handler, which for the certificate queue is \<open>acmeSigner.Notify\<close>.
\<close>

definition Add :: "string \<Rightarrow> Queue \<Rightarrow> Queue" where
  "Add item q =
     (if shuttingDown q \<or> item \<in> set (pending q) then q
      else q\<lparr>pending := pending q @ [item]\<rparr>)"

definition acmeQueueStep :: "HAProxyController \<Rightarrow> HAProxyController" where
  "acmeQueueStep hc =
     (case acmeQueue hc of
        None \<Rightarrow> hc
      | Some q \<Rightarrow>
          (case pending q of
             [] \<Rightarrow> hc
           | item # rest \<Rightarrow>
               emit (SignerNotify item) (hc\<lparr>acmeQueue := Some (q\<lparr>pending := rest\<rparr>)\<rparr>)))"

fun acmeQueueSteps :: "nat \<Rightarrow> HAProxyController \<Rightarrow> HAProxyController" where
  "acmeQueueSteps 0 hc = hc"
| "acmeQueueSteps (Suc n) hc = acmeQueueSteps n (acmeQueueStep hc)"

subsection \<open>The reconciliation handler\<close>

text \<open>
  \<open>syncIngress\<close>, the handler of the work queue. The item is not inspected.
  \<open>InstanceConfig\<close> is the call \<open>hc.instance.Config()\<close>, whose result is the model
  handed to the converter; \<open>ConverterSync\<close> is \<open>NewConverter(...).Sync()\<close>.
\<close>

definition syncIngress :: "string \<Rightarrow> HAProxyController \<Rightarrow> outcome \<times> HAProxyController" where
  "syncIngress item hc =
     (case ingressQueue hc of
        None \<Rightarrow> (Panic ''nil ingressQueue'', hc)
      | Some q \<Rightarrow>
          if ShuttingDown q then (Done, hc)
          else
            let hc1 = hc\<lparr>updateCount := updateCount hc + 1\<rparr> in
            (case logger hc1 of
               None \<Rightarrow> (Panic ''nil logger'', hc1)
             | Some _ \<Rightarrow>
                 let hc2 = emit (LoggerInfo ''starting haproxy update id=%d''
                                   [IntArg (updateCount hc1)]) hc1 in
                 if \<not> metrics hc2 then (Panic ''nil metrics'', hc2)
                 else
                   let hc3 = emit NewTimer hc2 in
                   (case instance' hc3 of
                      None \<Rightarrow> (Panic ''nil instance'', hc3)
                    | Some _ \<Rightarrow>
                        let hc4 = emit ConverterSync (emit InstanceConfig hc3);
                            hc5 = emit InstanceUpdate hc4;
                            hc6 = emit (LoggerInfo ''finish haproxy update id=%d: %s''
                                          [IntArg (updateCount hc5), TimerArg ''total'']) hc5
                        in (Done, hc6))))"

text \<open>The handler invoked once per item of a list of items, as the queue's worker
  does; it stops at the first invocation that does not return.\<close>

fun syncAll :: "string list \<Rightarrow> HAProxyController \<Rightarrow> outcome \<times> HAProxyController" where
  "syncAll [] hc = (Done, hc)"
| "syncAll (item # items) hc =
     (case syncIngress item hc of
        (Done, hc') \<Rightarrow> syncAll items hc'
      | r \<Rightarrow> r)"

text \<open>\<open>Check\<close>, the health check: \<open>None\<close> is the nil error.\<close>

definition Check :: "HAProxyController \<Rightarrow> string \<Rightarrow> string option" where
  "Check hc request = None"

subsection \<open>States and predicates used in the statements\<close>

text \<open>The handler can run to completion: the fields it dereferences are set and the
  work queue is not shutting down.\<close>

definition ready :: "HAProxyController \<Rightarrow> bool" where
  "ready hc =
     (logger hc \<noteq> None \<and> metrics hc \<and> instance' hc \<noteq> None \<and>
      (case ingressQueue hc of None \<Rightarrow> False | Some q \<Rightarrow> \<not> ShuttingDown q))"

text \<open>The events that start a service of the certificate workflow.\<close>

fun isAcmeService :: "event \<Rightarrow> bool" where
  "isAcmeService (ElectorRun _) = True"
| "isAcmeService (AcmeServerListen _) = True"
| "isAcmeService (QueueRun AcmeQ) = True"
| "isAcmeService (AcmePeriodicCheck _) = True"
| "isAcmeService _ = False"


text \<open>A concrete run: the defaults of the flags, certificate issuance enabled, a grace
  period of five seconds, no failing collaborator.\<close>

definition sampleConfig :: Configuration where
  "sampleConfig =
     \<lparr>RateLimitUpdate = 1, AllowCrossNamespace = False, AcmeServer = True,
      AcmeElectionID = ''acme-leader'', IngressClass = ''haproxy'',
      AcmeFailInitialDuration = 300000000000, AcmeFailMaxDuration = 28800000000000,
      AcmeCheckPeriod = 86400000000000, AcmeTrackTLSAnn = False,
      StatsCollectProcPeriod = 500000000, WaitBeforeShutdown = 5,
      CfgBackendShards = 0, CfgSortEndpointsBy = ''endpoint'',
      MasterSocket = [], AnnPrefix = ''ingress.kubernetes.io'',
      DefaultService = [], DefaultSSLCertificate = []\<rparr>"

definition sampleEnv :: env where
  "sampleEnv =
     \<lparr>argReloadStrategy = None, argMaxOldConfigFiles = None, argValidateConfig = None,
      envConfig = sampleConfig, parseTemplatesErr = None, addCertAuthErr = None,
      listenErr = None, fakeCrtFile = ''default.pem'', fakeCAFile = ''fake-ca.pem'',
      hasGateway = False\<rparr>"

text \<open>The controller of the concrete run when \<open>Start\<close> has reached its receive.\<close>

definition sampleStarted :: HAProxyController where
  "sampleStarted = snd (startUp sampleEnv NewHAProxyController)"

text \<open>The same controller after \<open>stopServices\<close>.\<close>

definition sampleStopped :: HAProxyController where
  "sampleStopped = snd (stopServices sampleStarted)"

text \<open>The same controller with two certificate items pending on the certificate queue.\<close>

definition samplePending :: HAProxyController where
  "samplePending =
     sampleStarted\<lparr>acmeQueue :=
       map_option (\<lambda>q. Add ''cert-b'' (Add ''cert-a'' q)) (acmeQueue sampleStarted)\<rparr>"

text \<open>The concrete run after \<open>NewIngressController\<close> and after \<open>configController\<close>.\<close>

definition sampleFlagged :: HAProxyController where
  "sampleFlagged = snd (NewIngressController sampleEnv NewHAProxyController)"

definition sampleConfigured :: HAProxyController where
  "sampleConfigured = snd (configController sampleEnv sampleFlagged)"


text \<open>Variants of the concrete run: certificate issuance disabled; the reload strategy
  \<open>multibinder\<close>, \<open>reusesocket\<close> or an unsupported one given on the command line.\<close>

definition sampleEnvNoAcme :: env where
  "sampleEnvNoAcme = sampleEnv\<lparr>envConfig := sampleConfig\<lparr>AcmeServer := False\<rparr>\<rparr>"

definition multibinderEnv :: env where
  "multibinderEnv = sampleEnv\<lparr>argReloadStrategy := Some ''multibinder''\<rparr>"

definition reusesocketEnv :: env where
  "reusesocketEnv = sampleEnv\<lparr>argReloadStrategy := Some ''reusesocket''\<rparr>"

definition bogusEnv :: env where
  "bogusEnv = sampleEnv\<lparr>argReloadStrategy := Some ''bogus''\<rparr>"

section \<open>Auxiliary facts\<close>

lemma andThen_simps [simp]:
  "andThen (Done, hc) f = f hc"
  "andThen (Blocked, hc) f = (Blocked, hc)"
  "andThen (Fatal m, hc) f = (Fatal m, hc)"
  "andThen (Panic m, hc) f = (Panic m, hc)"
  by (simp_all add: andThen_def)

lemma andThen_Done:
  "andThen r f = (Done, hc') \<Longrightarrow> \<exists>hc1. r = (Done, hc1) \<and> f hc1 = (Done, hc')"
  by (cases r; cases "fst r") (auto simp: andThen_def)

lemma syncIngress_ready:
  assumes "ready hc"
  shows "syncIngress item hc =
     (Done, hc\<lparr>updateCount := updateCount hc + 1,
              trace := trace hc @
                [LoggerInfo ''starting haproxy update id=%d'' [IntArg (updateCount hc + 1)],
                 NewTimer, InstanceConfig, ConverterSync, InstanceUpdate,
                 LoggerInfo ''finish haproxy update id=%d: %s''
                   [IntArg (updateCount hc + 1), TimerArg ''total'']]\<rparr>)"
  using assms
  by (auto simp: ready_def syncIngress_def emit_def Let_def split: option.splits)

lemma ready_after_sync:
  "ready hc \<Longrightarrow> syncIngress item hc = (Done, hc') \<Longrightarrow> ready hc'"
  by (auto simp: syncIngress_ready) (simp add: ready_def)

lemma syncAll_ready:
  "ready hc \<Longrightarrow> \<exists>hc'. syncAll items hc = (Done, hc') \<and> ready hc' \<and>
      updateCount hc' = updateCount hc + of_nat (length items)"
proof (induction items arbitrary: hc)
  case Nil
  then show ?case by simp
next
  case (Cons item items)
  obtain hc1 where s1: "syncIngress item hc = (Done, hc1)"
    and c1: "updateCount hc1 = updateCount hc + 1"
    using Cons.prems by (simp add: syncIngress_ready)
  have r1: "ready hc1" using Cons.prems s1 by (rule ready_after_sync)
  from Cons.IH [OF r1] obtain hc' where
    h: "syncAll items hc1 = (Done, hc')" "ready hc'"
       "updateCount hc' = updateCount hc1 + of_nat (length items)"
    by blast
  have "syncAll (item # items) hc = (Done, hc')"
    using s1 h(1) by simp
  moreover have "updateCount hc' = updateCount hc + of_nat (length (item # items))"
    using h(3) c1 by simp
  ultimately show ?case using h(2) by blast
qed

lemma sint_add_of_nat:
  fixes w :: "64 word"
  assumes "sint w + int n < 2 ^ 63"
  shows "sint (w + of_nat n) = sint w + int n"
proof -
  have lo: "- (2 ^ 63) \<le> sint w"
    using sint_ge [of w] by simp
  have "w + of_nat n = word_of_int (sint w + int n)"
    by simp
  then have "sint (w + of_nat n) = signed_take_bit 63 (sint w + int n)"
    by (simp only: signed_of_int) simp
  also have "\<dots> = sint w + int n"
    using lo assms by (intro signed_take_bit_int_eq_self) simp_all
  finally show ?thesis .
qed

lemma configController_Done:
  assumes "configController e hc = (Done, hc')"
  shows "logger hc' \<noteq> None \<and> metrics hc' \<and> instance' hc' \<noteq> None \<and>
         ingressQueue hc' = Some newQueue \<and> cache hc' \<and> stopCh hc' \<and>
         updateCount hc' = updateCount hc \<and> controller hc' = controller hc \<and>
         cfg hc' = map_option gcConfig (controller hc)"
  using assms
  by (auto simp: configController_def emit_def Let_def split: option.splits if_splits)

lemma startServices_Done:
  assumes "startServices e hc = (Done, hc')"
  shows "hc' = hc\<lparr>trace := trace hc'\<rparr>"
  using assms
  by (auto simp: startServices_def startAcme_def andThen_def emit_def Let_def
      split: option.splits if_splits outcome.splits prod.splits)

lemma NewIngressController_Done:
  assumes "NewIngressController e hc = (Done, hc')"
  shows "updateCount hc' = updateCount hc \<and> controller hc' \<noteq> None \<and>
     leaderelector hc' = leaderelector hc \<and> acmeQueue hc' = acmeQueue hc \<and> trace hc' = trace hc"
  using assms
  by (auto simp: NewIngressController_def OverrideFlags_def parseFlags_def ConfigureFlags_def
      split: option.splits if_splits dest!: andThen_Done)

lemma startUp_Done_ready:
  assumes "startUp e hc = (Done, hc')"
  shows "ready hc' \<and> updateCount hc' = updateCount hc"
proof -
  from assms obtain h1 h2 h3 where
    a: "NewIngressController e hc = (Done, h1)" and
    b: "configController e h1 = (Done, h2)" and
    c: "startServices e h2 = (Done, h3)" and
    d: "logInit h3 = (Done, hc')"
    unfolding startUp_def by (blast dest!: andThen_Done)
  from d have e: "hc' = emit (LoggerInfo ''HAProxy Ingress successfully initialized'' []) h3"
    by (auto simp: logInit_def split: option.splits)
  have h3: "h3 = h2\<lparr>trace := trace h3\<rparr>" using c by (rule startServices_Done)
  have r2: "ready h2" using configController_Done [OF b]
    by (simp add: ready_def ShuttingDown_def newQueue_def)
  have "ready h3" by (subst h3) (use r2 in \<open>simp add: ready_def\<close>)
  then have "ready hc'" by (simp add: e emit_def ready_def)
  moreover have "updateCount hc' = updateCount hc"
    using NewIngressController_Done [OF a] configController_Done [OF b]
    by (simp add: e emit_def, subst h3, simp)
  ultimately show ?thesis by simp
qed

lemma sample_startUp_Done: "fst (startUp sampleEnv NewHAProxyController) = Done"
  by code_simp

lemma sample_startUp: "startUp sampleEnv NewHAProxyController = (Done, sampleStarted)"
  using sample_startUp_Done by (simp add: sampleStarted_def prod_eq_iff)

lemma sampleStarted_ready: "ready sampleStarted" and sampleStarted_count: "updateCount sampleStarted = 0"
  using startUp_Done_ready [OF sample_startUp] by (simp_all add: NewHAProxyController_def)

section \<open>The reconciliation handler\<close>

text \<open>
  C1. The claim reads: every completed invocation of the handler (work queue not shutting
  down) increases the Update Counter by exactly 1, so after n completed invocations from
  a fresh controller the counter equals n. The counter is a Go \<open>int\<close>, so this holds
  below the overflow: a completed invocation adds 1 in 64-bit arithmetic, and as long as
  the counter plus the number of invocations stays below \<open>2 ^ 63\<close>, the counter after
  the invocations is the counter before plus their number. For a fresh controller (counter
  0) that is n for every n below \<open>2 ^ 63\<close>.
\<close>

theorem updateCount_after_invocations:
  assumes "ready hc" and "sint (updateCount hc) + int (length items) < 2 ^ 63"
  shows "fst (syncIngress item hc) = Done \<and>
         updateCount (snd (syncIngress item hc)) = updateCount hc + 1 \<and>
         (\<exists>hc'. syncAll items hc = (Done, hc') \<and>
            sint (updateCount hc') = sint (updateCount hc) + int (length items))"
proof -
  from syncAll_ready [OF assms(1), of items] obtain hc' where
    h: "syncAll items hc = (Done, hc')"
       "updateCount hc' = updateCount hc + of_nat (length items)"
    by blast
  have "sint (updateCount hc') = sint (updateCount hc) + int (length items)"
    unfolding h(2) using assms(2) by (rule sint_add_of_nat)
  with h(1) show ?thesis
    using assms(1) by (simp add: syncIngress_ready)
qed

text \<open>The statement at the started controller of the concrete run, with three
  invocations.\<close>

theorem updateCount_after_invocations_witness:
  "ready sampleStarted \<and>
   sint (updateCount sampleStarted) + int (length [''resync'', ''resync'', ''resync'']) < 2 ^ 63 \<and>
   fst (syncIngress ''resync'' sampleStarted) = Done \<and>
   updateCount (snd (syncIngress ''resync'' sampleStarted)) = 1 \<and>
   fst (syncAll [''resync'', ''resync'', ''resync''] sampleStarted) = Done \<and>
   sint (updateCount (snd (syncAll [''resync'', ''resync'', ''resync''] sampleStarted))) = 3"
proof -
  have b: "sint (updateCount sampleStarted) + int (length [''resync'', ''resync'', ''resync'']) < 2 ^ 63"
    by (simp add: sampleStarted_count)
  from updateCount_after_invocations [OF sampleStarted_ready b, of "''resync''"]
  show ?thesis
    using sampleStarted_ready by (auto simp: sampleStarted_count)
qed

text \<open>The claim without the bound fails: after \<open>2 ^ 63\<close> completed invocations from
  the fresh controller every invocation has completed and the counter is \<open>- 2 ^ 63\<close>.\<close>

theorem updateCount_wraps_counterexample:
  "fst (syncAll (replicate (2 ^ 63) ''resync'') sampleStarted) = Done \<and>
   sint (updateCount (snd (syncAll (replicate (2 ^ 63) ''resync'') sampleStarted))) = - (2 ^ 63) \<and>
   sint (updateCount (snd (syncAll (replicate (2 ^ 63) ''resync'') sampleStarted))) \<noteq> int (2 ^ 63)"
proof -
  from syncAll_ready [OF sampleStarted_ready, of "replicate (2 ^ 63) ''resync''"]
  obtain hc' where
    h: "syncAll (replicate (2 ^ 63) ''resync'') sampleStarted = (Done, hc')"
       "updateCount hc' = updateCount sampleStarted + of_nat (length (replicate (2 ^ 63) ''resync''))"
    by blast
  have "updateCount hc' = (2 ^ 63 :: 64 word)"
    using h(2) by (simp add: sampleStarted_count)
  then have "sint (updateCount hc') = - (2 ^ 63)" by simp
  with h(1) show ?thesis by simp
qed

text \<open>
  C2. Every invocation of the handler while the work queue is not shutting down performs,
  in this order: the increment of the Update Counter and the log line with its new value,
  the start of a timer, the call of the converter's \<open>Sync\<close> on the configuration model
  of the instance, the call of \<open>Update\<close> on the instance, and the log line of completion
  with the counter and the elapsed time; nothing else changes.
\<close>

theorem syncIngress_steps:
  assumes "ready hc"
  shows "syncIngress item hc =
     (Done, hc\<lparr>updateCount := updateCount hc + 1,
              trace := trace hc @
                [LoggerInfo ''starting haproxy update id=%d'' [IntArg (updateCount hc + 1)],
                 NewTimer, InstanceConfig, ConverterSync, InstanceUpdate,
                 LoggerInfo ''finish haproxy update id=%d: %s''
                   [IntArg (updateCount hc + 1), TimerArg ''total'']]\<rparr>)"
  using assms by (rule syncIngress_ready)

text \<open>The statement at the started controller of the concrete run.\<close>

theorem syncIngress_steps_witness:
  "ready sampleStarted \<and>
   syncIngress ''resync'' sampleStarted =
     (Done, sampleStarted\<lparr>updateCount := 1,
              trace := trace sampleStarted @
                [LoggerInfo ''starting haproxy update id=%d'' [IntArg 1],
                 NewTimer, InstanceConfig, ConverterSync, InstanceUpdate,
                 LoggerInfo ''finish haproxy update id=%d: %s''
                   [IntArg 1, TimerArg ''total'']]\<rparr>)"
  using syncIngress_steps [OF sampleStarted_ready, of "''resync''"] sampleStarted_ready
  by (simp add: sampleStarted_count)

section \<open>The health check\<close>

text \<open>
  C10. The health check \<open>Check\<close> returns the nil error for every request and in every
  state of the controller, a controller that is shutting down included.
\<close>

theorem Check_healthy: "Check hc request = None"
  by (simp add: Check_def)

section \<open>Shutdown\<close>

lemma stopServices_eq:
  assumes "ingressQueue hc = Some q"
  shows "stopServices hc =
     (Done, hc\<lparr>ingressQueue := Some (ShutDown q),
              acmeQueue := map_option ShutDown (acmeQueue hc),
              trace := trace hc @ QueueShutDown IngressQ #
                 (case acmeQueue hc of None \<Rightarrow> [] | Some _ \<Rightarrow> [QueueShutDown AcmeQ])\<rparr>)"
  using assms by (cases "acmeQueue hc") (simp_all add: stopServices_def emit_def)


lemma sampleStarted_fields:
  "cfg sampleStarted = Some sampleConfig"
  "controller sampleStarted = Some \<lparr>gcConfig = sampleConfig, stopClosed = False\<rparr>"
  "stopCh sampleStarted"
  "ingressQueue sampleStarted = Some newQueue"
  "acmeQueue sampleStarted = Some newQueue"
  "leaderelector sampleStarted = Some ''acme-leader-haproxy''"
  unfolding sampleStarted_def by code_simp+







text \<open>
  C3. An invocation of the handler while \<open>ShuttingDown()\<close> of the work queue is true
  returns at once: the converter and \<open>Update\<close> are not called (the trace is unchanged),
  and the Update Counter, like every other field, is unchanged.
\<close>

theorem syncIngress_shutting_down:
  assumes "ingressQueue hc = Some q" and "ShuttingDown q"
  shows "syncIngress item hc = (Done, hc)"
  using assms by (simp add: syncIngress_def)

text \<open>The statement at the controller of the concrete run after \<open>stopServices\<close>.\<close>

theorem syncIngress_shutting_down_witness:
  "ingressQueue sampleStopped = Some (ShutDown newQueue) \<and>
   ShuttingDown (ShutDown newQueue) \<and>
   syncIngress ''resync'' sampleStopped = (Done, sampleStopped)"
proof -
  have a: "ingressQueue sampleStopped = Some (ShutDown newQueue)"
    by (simp add: sampleStopped_def stopServices_eq [OF sampleStarted_fields(4)])
  have b: "ShuttingDown (ShutDown newQueue)"
    by (simp add: ShuttingDown_def ShutDown_def)
  from syncIngress_shutting_down [OF a b] a b show ?thesis by simp
qed

section \<open>Loss of leadership\<close>

lemma acmeQueueSteps_empty:
  "acmeQueue hc = Some q \<Longrightarrow> pending q = [] \<Longrightarrow> acmeQueueSteps n hc = hc"
  by (induction n) (simp_all add: acmeQueueStep_def)

lemma samplePending_queue:
  "acmeQueue samplePending = Some \<lparr>shuttingDown = False, pending = [''cert-a'', ''cert-b'']\<rparr>"
  by (simp add: samplePending_def sampleStarted_fields newQueue_def Add_def)

text \<open>
  C5. When \<open>OnStoppedLeading\<close> fires on a controller that has a certificate queue, the
  queue is cleared: \<open>Clear\<close> is its only effect, no item is pending afterwards, and
  however many steps the worker of the queue takes afterwards, it invokes the issuance
  handler for none of the items (the state, and with it the trace, stays as it is).
\<close>

theorem OnStoppedLeading_clears:
  assumes "acmeQueue hc = Some q"
  shows "\<exists>hc' q'. OnStoppedLeading hc = (Done, hc') \<and> acmeQueue hc' = Some q' \<and>
           pending q' = [] \<and> trace hc' = trace hc @ [QueueClear AcmeQ] \<and>
           (\<forall>n. acmeQueueSteps n hc' = hc')"
proof -
  let ?hc' = "emit (QueueClear AcmeQ) (hc\<lparr>acmeQueue := Some (Clear q)\<rparr>)"
  have 1: "OnStoppedLeading hc = (Done, ?hc')"
    using assms by (simp add: OnStoppedLeading_def)
  have 2: "acmeQueue ?hc' = Some (Clear q)" by (simp add: emit_def)
  have 3: "pending (Clear q) = []" by (simp add: Clear_def)
  have 4: "trace ?hc' = trace hc @ [QueueClear AcmeQ]" by (simp add: emit_def)
  have 5: "\<forall>n. acmeQueueSteps n ?hc' = ?hc'"
    using acmeQueueSteps_empty [OF 2 3] by blast
  from 1 2 3 4 5 show ?thesis by blast
qed

text \<open>The statement at the concrete run with two pending items; without the callback
  the worker invokes the handler for both.\<close>

theorem OnStoppedLeading_clears_witness:
  "acmeQueue samplePending = Some \<lparr>shuttingDown = False, pending = [''cert-a'', ''cert-b'']\<rparr> \<and>
   trace (acmeQueueSteps 2 samplePending) =
     trace samplePending @ [SignerNotify ''cert-a'', SignerNotify ''cert-b''] \<and>
   fst (OnStoppedLeading samplePending) = Done \<and>
   acmeQueue (snd (OnStoppedLeading samplePending)) = Some \<lparr>shuttingDown = False, pending = []\<rparr> \<and>
   trace (acmeQueueSteps 2 (snd (OnStoppedLeading samplePending))) =
     trace samplePending @ [QueueClear AcmeQ]"
proof -
  have w: "trace (acmeQueueSteps 2 samplePending) =
     trace samplePending @ [SignerNotify ''cert-a'', SignerNotify ''cert-b'']"
    by (simp add: numeral_2_eq_2 acmeQueueStep_def samplePending_queue emit_def)
  from OnStoppedLeading_clears [OF samplePending_queue] obtain hc' q' where
    h: "OnStoppedLeading samplePending = (Done, hc')" "acmeQueue hc' = Some q'"
       "pending q' = []" "trace hc' = trace samplePending @ [QueueClear AcmeQ]"
       "\<forall>n. acmeQueueSteps n hc' = hc'"
    by blast
  have "acmeQueue hc' = Some \<lparr>shuttingDown = False, pending = []\<rparr>"
    using h(1) by (auto simp: OnStoppedLeading_def samplePending_queue emit_def Clear_def)
  with h w samplePending_queue show ?thesis by simp
qed

section \<open>Start-up\<close>

lemma configController_elector:
  assumes "configController e hc = (Done, hc')" and "controller hc = Some gc"
    and "leaderelector hc = None" and "acmeQueue hc = None"
  shows "cfg hc' = Some (gcConfig gc) \<and>
         leaderelector hc' = (if AcmeServer (gcConfig gc) then Some (electorID (gcConfig gc)) else None) \<and>
         acmeQueue hc' = (if AcmeServer (gcConfig gc) then Some newQueue else None) \<and>
         (\<exists>io. instance' hc' = Some io \<and> AcmeSigner io = AcmeServer (gcConfig gc) \<and>
            LeaderElector io = leaderelector hc' \<and>
            AcmeQueue io = (if AcmeServer (gcConfig gc) then Some AcmeQ else None))"
  using assms
  by (auto simp: configController_def emit_def Let_def split: option.splits if_splits)

lemma configController_controller:
  "configController e hc = (Done, hc') \<Longrightarrow> \<exists>gc. controller hc = Some gc"
  by (auto simp: configController_def Let_def emit_def split: option.splits if_splits)

lemma sampleFlagged_eq:
  "NewIngressController sampleEnv NewHAProxyController = (Done, sampleFlagged)"
  "controller sampleFlagged = Some \<lparr>gcConfig = sampleConfig, stopClosed = False\<rparr>"
  "leaderelector sampleFlagged = None"
  "acmeQueue sampleFlagged = None"
  unfolding sampleFlagged_def prod_eq_iff by code_simp+

lemma sampleConfigured_eq:
  "configController sampleEnv sampleFlagged = (Done, sampleConfigured)"
  unfolding sampleConfigured_def sampleFlagged_def prod_eq_iff by code_simp

lemma sampleConfig_acme: "AcmeServer sampleConfig"
  by (simp add: sampleConfig_def)

lemma andThen_cases:
  assumes "andThen r f = (r', hc')"
  shows "(r = (r', hc') \<and> r' \<noteq> Done) \<or> (\<exists>h. r = (Done, h) \<and> f h = (r', hc'))"
  using assms by (cases r; cases "fst r") (auto simp: andThen_def)

lemma NewIngressController_any:
  assumes "NewIngressController e NewHAProxyController = (r, h)"
  shows "leaderelector h = None \<and> acmeQueue h = None \<and> instance' h = None \<and>
         ingressQueue h = None \<and> trace h = [] \<and>
         reloadStrategy h =
           Some (case argReloadStrategy e of None \<Rightarrow> ''reusesocket'' | Some v \<Rightarrow> v) \<and>
         maxOldConfigFiles h \<noteq> None \<and> validateConfig h \<noteq> None \<and>
         (r = Done \<longrightarrow> controller h = Some \<lparr>gcConfig = envConfig e, stopClosed = False\<rparr>) \<and>
         r = (case reloadStrategy h of None \<Rightarrow> Panic ''nil reloadStrategy''
              | Some rs \<Rightarrow>
                  if rs = ''native'' \<or> rs = ''reusesocket'' \<or> rs = ''multibinder'' then Done
                  else Fatal (''Unsupported reload strategy: '' @ rs))"
  using assms
  by (auto simp: NewIngressController_def OverrideFlags_def parseFlags_def ConfigureFlags_def
      NewHAProxyController_def andThen_def split: option.splits if_splits)

lemma configController_any:
  assumes "configController e h = (r, h')"
  shows "filter isAcmeService (trace h') = filter isAcmeService (trace h) \<and>
         (leaderelector h = None \<and> acmeQueue h = None \<and> instance' h = None \<and>
          controller h = Some gc \<and> \<not> AcmeServer (gcConfig gc) \<longrightarrow>
            leaderelector h' = None \<and> acmeQueue h' = None \<and>
            (\<forall>io. instance' h' = Some io \<longrightarrow> \<not> AcmeSigner io))"
  using assms
  by (auto simp: configController_def emit_def Let_def split: option.splits if_splits)

lemma startServices_any:
  assumes "startServices e h = (r, h')"
  shows "h' = h\<lparr>trace := trace h'\<rparr> \<and> (\<exists>rest. trace h' = trace h @ rest) \<and>
         (cfg h = Some c \<and> \<not> AcmeServer c \<and> leaderelector h = None \<longrightarrow>
            filter isAcmeService (trace h') = filter isAcmeService (trace h))"
  using assms
  by (auto simp: startServices_def startAcme_def andThen_def emit_def Let_def
      split: option.splits if_splits outcome.splits prod.splits)

lemma startServices_Done_trace:
  assumes "startServices e h = (Done, h')" and "cfg h = Some c"
  shows "filter isAcmeService (trace h') =
           filter isAcmeService (trace h) @
           (case leaderelector h of None \<Rightarrow> [] | Some le \<Rightarrow> [ElectorRun le]) @
           (if AcmeServer c
            then [AcmeServerListen ''/var/run/haproxy/acme.sock'', QueueRun AcmeQ,
                  AcmePeriodicCheck (AcmeCheckPeriod c)]
            else [])"
  using assms
  by (auto simp: startServices_def startAcme_def andThen_def emit_def Let_def
      split: option.splits if_splits outcome.splits prod.splits)

lemma startServices_fields:
  assumes "startServices e h = (r, h')"
  shows "leaderelector h' = leaderelector h" "acmeQueue h' = acmeQueue h"
    "instance' h' = instance' h" "logger h' = logger h" "controller h' = controller h"
    "stopCh h' = stopCh h" "ingressQueue h' = ingressQueue h"
proof -
  have eq: "h' = h\<lparr>trace := trace h'\<rparr>"
    using startServices_any [OF assms] by blast
  from arg_cong [OF eq, of leaderelector] show "leaderelector h' = leaderelector h" by simp
  from arg_cong [OF eq, of acmeQueue] show "acmeQueue h' = acmeQueue h" by simp
  from arg_cong [OF eq, of instance'] show "instance' h' = instance' h" by simp
  from arg_cong [OF eq, of logger] show "logger h' = logger h" by simp
  from arg_cong [OF eq, of controller] show "controller h' = controller h" by simp
  from arg_cong [OF eq, of stopCh] show "stopCh h' = stopCh h" by simp
  from arg_cong [OF eq, of ingressQueue] show "ingressQueue h' = ingressQueue h" by simp
qed

lemma logInit_any:
  assumes "logInit h = (r, h')"
  shows "leaderelector h' = leaderelector h \<and> acmeQueue h' = acmeQueue h \<and>
         instance' h' = instance' h \<and>
         filter isAcmeService (trace h') = filter isAcmeService (trace h) \<and>
         (\<exists>rest. trace h' = trace h @ rest) \<and>
         controller h' = controller h \<and> stopCh h' = stopCh h \<and>
         (logger h \<noteq> None \<longrightarrow> r = Done)"
  using assms by (auto simp: logInit_def emit_def split: option.splits)

lemma startUp_noacme:
  assumes "startUp e NewHAProxyController = (r, hc)" and "\<not> AcmeServer (envConfig e)"
  shows "leaderelector hc = None \<and> acmeQueue hc = None \<and>
         (\<forall>io. instance' hc = Some io \<longrightarrow> \<not> AcmeSigner io) \<and>
         filter isAcmeService (trace hc) = []"
proof -
  obtain r1 h1 where n: "NewIngressController e NewHAProxyController = (r1, h1)"
    by (cases "NewIngressController e NewHAProxyController")
  note N = NewIngressController_any [OF n]
  from assms(1) have
    "andThen (r1, h1) (\<lambda>hc1. andThen (configController e hc1)
          (\<lambda>hc2. andThen (startServices e hc2) logInit)) = (r, hc)"
    by (simp add: startUp_def n)
  from andThen_cases [OF this] show ?thesis
  proof
    assume "(r1, h1) = (r, hc) \<and> r \<noteq> Done"
    with N show ?thesis by auto
  next
    assume "\<exists>h. (r1, h1) = (Done, h) \<and>
       andThen (configController e h) (\<lambda>hc2. andThen (startServices e hc2) logInit) = (r, hc)"
    then have r1: "r1 = Done"
      and a2: "andThen (configController e h1) (\<lambda>hc2. andThen (startServices e hc2) logInit) = (r, hc)"
      by auto
    let ?gc = "\<lparr>gcConfig = envConfig e, stopClosed = False\<rparr>"
    have gc: "controller h1 = Some ?gc" using N r1 by blast
    obtain r2 h2 where c: "configController e h1 = (r2, h2)"
      by (cases "configController e h1")
    have C: "leaderelector h2 = None \<and> acmeQueue h2 = None \<and>
            (\<forall>io. instance' h2 = Some io \<longrightarrow> \<not> AcmeSigner io) \<and>
            filter isAcmeService (trace h2) = []"
      using configController_any [OF c, of ?gc] N gc assms(2) by simp
    from a2 have "andThen (r2, h2) (\<lambda>hc2. andThen (startServices e hc2) logInit) = (r, hc)"
      by (simp add: c)
    from andThen_cases [OF this] show ?thesis
    proof
      assume "(r2, h2) = (r, hc) \<and> r \<noteq> Done"
      with C show ?thesis by auto
    next
      assume "\<exists>h. (r2, h2) = (Done, h) \<and> andThen (startServices e h) logInit = (r, hc)"
      then have r2: "r2 = Done" and a3: "andThen (startServices e h2) logInit = (r, hc)"
        by auto
      have cfg2: "cfg h2 = Some (envConfig e)"
        using configController_Done [of e h1 h2] c r2 gc by simp
      obtain r3 h3 where s: "startServices e h2 = (r3, h3)"
        by (cases "startServices e h2")
      have S: "leaderelector h3 = None \<and> acmeQueue h3 = None \<and>
            (\<forall>io. instance' h3 = Some io \<longrightarrow> \<not> AcmeSigner io) \<and>
            filter isAcmeService (trace h3) = []"
        using startServices_fields [OF s] startServices_any [OF s, of "envConfig e"] C cfg2 assms(2)
        by simp
      from a3 have "andThen (r3, h3) logInit = (r, hc)" by (simp add: s)
      from andThen_cases [OF this] show ?thesis
      proof
        assume "(r3, h3) = (r, hc) \<and> r \<noteq> Done"
        with S show ?thesis by auto
      next
        assume "\<exists>h. (r3, h3) = (Done, h) \<and> logInit h = (r, hc)"
        then have "logInit h3 = (r, hc)" by auto
        from logInit_any [OF this] S show ?thesis by simp
      qed
    qed
  qed
qed

lemma startUp_Done_acme:
  assumes "startUp e NewHAProxyController = (Done, hc)"
  shows "leaderelector hc =
           (if AcmeServer (envConfig e) then Some (electorID (envConfig e)) else None) \<and>
         acmeQueue hc = (if AcmeServer (envConfig e) then Some newQueue else None) \<and>
         (\<exists>io. instance' hc = Some io \<and> AcmeSigner io = AcmeServer (envConfig e)) \<and>
         filter isAcmeService (trace hc) =
           (if AcmeServer (envConfig e)
            then [ElectorRun (electorID (envConfig e)),
                  AcmeServerListen ''/var/run/haproxy/acme.sock'', QueueRun AcmeQ,
                  AcmePeriodicCheck (AcmeCheckPeriod (envConfig e))]
            else [])"
proof -
  from assms obtain h1 h2 h3 where
    a: "NewIngressController e NewHAProxyController = (Done, h1)" and
    b: "configController e h1 = (Done, h2)" and
    c: "startServices e h2 = (Done, h3)" and
    d: "logInit h3 = (Done, hc)"
    unfolding startUp_def by (blast dest!: andThen_Done)
  let ?gc = "\<lparr>gcConfig = envConfig e, stopClosed = False\<rparr>"
  note N = NewIngressController_any [OF a]
  have gc: "controller h1 = Some ?gc" using N by blast
  have E: "cfg h2 = Some (envConfig e)"
    "leaderelector h2 = (if AcmeServer (envConfig e) then Some (electorID (envConfig e)) else None)"
    "acmeQueue h2 = (if AcmeServer (envConfig e) then Some newQueue else None)"
    "\<exists>io. instance' h2 = Some io \<and> AcmeSigner io = AcmeServer (envConfig e)"
    using configController_elector [OF b gc] N by auto
  have T2: "filter isAcmeService (trace h2) = []"
    using configController_any [OF b, of ?gc] N by simp
  have T3: "filter isAcmeService (trace h3) =
           (if AcmeServer (envConfig e)
            then [ElectorRun (electorID (envConfig e)),
                  AcmeServerListen ''/var/run/haproxy/acme.sock'', QueueRun AcmeQ,
                  AcmePeriodicCheck (AcmeCheckPeriod (envConfig e))]
            else [])"
    using startServices_Done_trace [OF c E(1)] T2 E(2) by simp
  show ?thesis
    using logInit_any [OF d] startServices_fields [OF c] E T3 by simp
qed

lemma configController_flags:
  assumes "configController e h = (r, h')" and "reloadStrategy h = Some rs"
    and "controller h = Some gc" and "maxOldConfigFiles h \<noteq> None"
    and "validateConfig h \<noteq> None"
  shows "\<exists>io. instance' h' = Some io \<and> ReloadStrategy io = rs \<and>
           trace h' = trace h @
             (if rs = ''multibinder'' then [GlogWarning multibinderWarning] else []) @
             [CreateInstance io, ParseTemplates] \<and>
           r = (case parseTemplatesErr e of
                  Some err \<Rightarrow> Fatal (''error creating HAProxy instance: '' @ err)
                | None \<Rightarrow>
                    (case addCertAuthErr e of
                       Some err \<Rightarrow> Fatal (''error generating fake CA: '' @ err)
                     | None \<Rightarrow> Done))"
  using assms
  by (auto simp: configController_def emit_def Let_def split: option.splits if_splits)

lemma startServices_outcome:
  assumes "startServices e h = (r, h')" and "cache h" and "ingressQueue h \<noteq> None"
    and "cfg h = Some c" and "controller h \<noteq> None"
    and "AcmeServer c \<longrightarrow> acmeQueue h \<noteq> None"
  shows "r = (if AcmeServer c
              then (case listenErr e of
                      Some err \<Rightarrow> Fatal (''error creating the acme server listener: '' @ err)
                    | None \<Rightarrow> Done)
              else Done) \<and>
         (\<exists>rest. trace h' = trace h @ CacheRunAsync # QueueRun IngressQ # rest)"
  using assms
  by (auto simp: startServices_def startAcme_def andThen_def emit_def Let_def
      split: option.splits if_splits outcome.splits prod.splits)

lemma startUp_multibinder:
  assumes "argReloadStrategy e = Some ''multibinder''"
    and "startUp e NewHAProxyController = (r, hc)"
  shows "\<exists>io rest.
           trace hc = GlogWarning multibinderWarning # CreateInstance io # ParseTemplates # rest \<and>
           instance' hc = Some io \<and> ReloadStrategy io = ''multibinder'' \<and>
           r \<noteq> Fatal ''Unsupported reload strategy: multibinder'' \<and>
           (r = Done \<longrightarrow> QueueRun IngressQ \<in> set rest \<and> stopCh hc \<and>
              controller hc = Some \<lparr>gcConfig = envConfig e, stopClosed = False\<rparr>) \<and>
           (parseTemplatesErr e = None \<and> addCertAuthErr e = None \<and>
            (AcmeServer (envConfig e) \<longrightarrow> listenErr e = None) \<longrightarrow> r = Done)"
proof -
  let ?gc = "\<lparr>gcConfig = envConfig e, stopClosed = False\<rparr>"
  obtain r1 h1 where n: "NewIngressController e NewHAProxyController = (r1, h1)"
    by (cases "NewIngressController e NewHAProxyController")
  note N = NewIngressController_any [OF n]
  have rs: "reloadStrategy h1 = Some ''multibinder''" using N assms(1) by simp
  have r1: "r1 = Done" using N rs by simp
  have gc: "controller h1 = Some ?gc" using N r1 by blast
  obtain r2 h2 where c: "configController e h1 = (r2, h2)"
    by (cases "configController e h1")
  from configController_flags [OF c rs gc] N obtain io where
    io: "instance' h2 = Some io" "ReloadStrategy io = ''multibinder''"
        "trace h2 = [GlogWarning multibinderWarning, CreateInstance io, ParseTemplates]"
    and r2: "r2 = (case parseTemplatesErr e of
                  Some err \<Rightarrow> Fatal (''error creating HAProxy instance: '' @ err)
                | None \<Rightarrow>
                    (case addCertAuthErr e of
                       Some err \<Rightarrow> Fatal (''error generating fake CA: '' @ err)
                     | None \<Rightarrow> Done))"
    by auto
  have a2: "andThen (r2, h2) (\<lambda>hc2. andThen (startServices e hc2) logInit) = (r, hc)"
    using assms(2) by (simp add: startUp_def n r1 c)
  from andThen_cases [OF a2] show ?thesis
  proof
    assume "(r2, h2) = (r, hc) \<and> r \<noteq> Done"
    then have e: "r = r2" "hc = h2" "r2 \<noteq> Done" by auto
    show ?thesis
      using io r2 e(3) unfolding e by (auto split: option.splits)
  next
    assume "\<exists>h. (r2, h2) = (Done, h) \<and> andThen (startServices e h) logInit = (r, hc)"
    then have d2: "r2 = Done" and a3: "andThen (startServices e h2) logInit = (r, hc)"
      by auto
    have c': "configController e h1 = (Done, h2)" using c d2 by simp
    note D = configController_Done [OF c']
    note E = configController_elector [OF c' gc]
    have errs: "parseTemplatesErr e = None" "addCertAuthErr e = None"
      using r2 d2 by (auto split: option.splits)
    obtain r3 h3 where s: "startServices e h2 = (r3, h3)"
      by (cases "startServices e h2")
    have cfg2: "cfg h2 = Some (envConfig e)" using D gc by simp
    have aq: "AcmeServer (envConfig e) \<longrightarrow> acmeQueue h2 \<noteq> None"
      using E N by simp
    from startServices_outcome [OF s _ _ cfg2 _ aq] D gc obtain rest where
      r3: "r3 = (if AcmeServer (envConfig e)
              then (case listenErr e of
                      Some err \<Rightarrow> Fatal (''error creating the acme server listener: '' @ err)
                    | None \<Rightarrow> Done)
              else Done)"
      and t3: "trace h3 = trace h2 @ CacheRunAsync # QueueRun IngressQ # rest"
      by auto
    note F = startServices_fields [OF s]
    have a4: "andThen (r3, h3) logInit = (r, hc)" using a3 by (simp add: s)
    from andThen_cases [OF a4] show ?thesis
    proof
      assume "(r3, h3) = (r, hc) \<and> r \<noteq> Done"
      then have e: "r = r3" "hc = h3" "r3 \<noteq> Done" by auto
      show ?thesis
        using io t3 F r3 e(3) unfolding e by (auto split: option.splits if_splits)
    next
      assume "\<exists>h. (r3, h3) = (Done, h) \<and> logInit h = (r, hc)"
      then have d3: "r3 = Done" and l: "logInit h3 = (r, hc)" by auto
      from logInit_any [OF l] F D obtain rest' where
        L: "instance' hc = instance' h3" "trace hc = trace h3 @ rest'"
           "controller hc = controller h3" "stopCh hc = stopCh h3" "r = Done"
        by auto
      show ?thesis
        using io t3 F L D gc by simp
    qed
  qed
qed

lemma sampleStarted_acme_trace:
  "filter isAcmeService (trace sampleStarted) =
     [ElectorRun ''acme-leader-haproxy'', AcmeServerListen ''/var/run/haproxy/acme.sock'',
      QueueRun AcmeQ, AcmePeriodicCheck 86400000000000]"
  unfolding sampleStarted_def by code_simp

lemma sampleEnvNoAcme_Done: "fst (startUp sampleEnvNoAcme NewHAProxyController) = Done"
  by code_simp

lemma multibinderEnv_fields:
  "argReloadStrategy multibinderEnv = Some ''multibinder''"
  "parseTemplatesErr multibinderEnv = None" "addCertAuthErr multibinderEnv = None"
  "listenErr multibinderEnv = None"
  by (simp_all add: multibinderEnv_def sampleEnv_def)

text \<open>
  C8. The claim reads: the leader-election identifier is the configured base election ID,
  a hyphen and the ingress class, so controllers with distinct ingress classes get
  distinct identifiers. The first part holds for every configuration, and
  \<open>configController\<close> creates the elector with exactly this identifier. The second part
  holds for controllers that share the base election ID: then distinct ingress classes
  give distinct identifiers.
\<close>

theorem electorID_concat:
  "electorID c = AcmeElectionID c @ ''-'' @ IngressClass c \<and>
   (AcmeElectionID c = AcmeElectionID c' \<and> IngressClass c \<noteq> IngressClass c'
      \<longrightarrow> electorID c \<noteq> electorID c') \<and>
   (configController e hc = (Done, hc') \<and> controller hc = Some gc \<and>
    leaderelector hc = None \<and> acmeQueue hc = None \<and> AcmeServer (gcConfig gc)
      \<longrightarrow> leaderelector hc' =
            Some (AcmeElectionID (gcConfig gc) @ ''-'' @ IngressClass (gcConfig gc)))"
  using configController_elector [of e hc hc' gc]
  by (auto simp: electorID_def)

text \<open>The statement at the concrete run and at a second configuration with the ingress
  class \<open>internal\<close>.\<close>

theorem electorID_concat_witness:
  "electorID sampleConfig = ''acme-leader-haproxy'' \<and>
   AcmeElectionID sampleConfig = AcmeElectionID (sampleConfig\<lparr>IngressClass := ''internal''\<rparr>) \<and>
   IngressClass sampleConfig \<noteq> IngressClass (sampleConfig\<lparr>IngressClass := ''internal''\<rparr>) \<and>
   electorID sampleConfig \<noteq> electorID (sampleConfig\<lparr>IngressClass := ''internal''\<rparr>) \<and>
   configController sampleEnv sampleFlagged = (Done, sampleConfigured) \<and>
   controller sampleFlagged = Some \<lparr>gcConfig = sampleConfig, stopClosed = False\<rparr> \<and>
   leaderelector sampleFlagged = None \<and> acmeQueue sampleFlagged = None \<and>
   AcmeServer sampleConfig \<and>
   leaderelector sampleConfigured = Some ''acme-leader-haproxy''"
proof -
  let ?c' = "sampleConfig\<lparr>IngressClass := ''internal''\<rparr>"
  let ?gc = "\<lparr>gcConfig = sampleConfig, stopClosed = False\<rparr>"
  note t = electorID_concat [of sampleConfig ?c' sampleEnv sampleFlagged sampleConfigured ?gc]
  have a: "electorID sampleConfig = ''acme-leader-haproxy''"
    using t by (simp add: sampleConfig_def)
  have b: "AcmeElectionID sampleConfig = AcmeElectionID ?c'" by simp
  have c: "IngressClass sampleConfig \<noteq> IngressClass ?c'" by (simp add: sampleConfig_def)
  have d: "electorID sampleConfig \<noteq> electorID ?c'" using t b c by blast
  have g: "AcmeServer (gcConfig ?gc)" using sampleConfig_acme by simp
  have "leaderelector sampleConfigured =
      Some (AcmeElectionID (gcConfig ?gc) @ ''-'' @ IngressClass (gcConfig ?gc))"
    using t sampleConfigured_eq sampleFlagged_eq(2-4) g by blast
  then have e: "leaderelector sampleConfigured = Some ''acme-leader-haproxy''"
    by (simp add: sampleConfig_def)
  show ?thesis
    using a b c d e sampleConfigured_eq sampleFlagged_eq(2-4) sampleConfig_acme
    by blast
qed

text \<open>Without a shared base the second part fails: the base \<open>acme\<close> with the class
  \<open>leader-haproxy\<close> and the base \<open>acme-leader\<close> with the class \<open>haproxy\<close> have distinct
  ingress classes and the same identifier.\<close>

theorem electorID_collision_counterexample:
  "IngressClass (sampleConfig\<lparr>AcmeElectionID := ''acme'', IngressClass := ''leader-haproxy''\<rparr>)
     \<noteq> IngressClass sampleConfig \<and>
   electorID (sampleConfig\<lparr>AcmeElectionID := ''acme'', IngressClass := ''leader-haproxy''\<rparr>)
     = electorID sampleConfig"
  by (simp add: electorID_def sampleConfig_def)

text \<open>
  C9. After \<open>configController\<close> has completed on a controller that had neither a leader
  elector nor a certificate queue (the struct that \<open>Start\<close> configures), the leader elector
  is non-nil exactly when the certificate queue is non-nil, both exactly when
  \<open>AcmeServer\<close> is set; so whenever there is an elector to deliver \<open>OnStoppedLeading\<close>,
  the call \<open>hc.acmeQueue.Clear()\<close> does not dereference nil: the callback returns.
\<close>

theorem elector_iff_acmeQueue:
  assumes "configController e hc = (Done, hc')"
    and "leaderelector hc = None" and "acmeQueue hc = None"
  shows "(leaderelector hc' \<noteq> None) = (acmeQueue hc' \<noteq> None) \<and>
         (\<exists>c. cfg hc' = Some c \<and> (leaderelector hc' \<noteq> None) = AcmeServer c) \<and>
         (leaderelector hc' \<noteq> None \<longrightarrow> fst (OnStoppedLeading hc') = Done)"
proof -
  from configController_controller [OF assms(1)] obtain gc where
    gc: "controller hc = Some gc" by blast
  from configController_elector [OF assms(1) gc assms(2,3)] show ?thesis
    by (auto simp: OnStoppedLeading_def)
qed

text \<open>The statement at the concrete run.\<close>

theorem elector_iff_acmeQueue_witness:
  "configController sampleEnv sampleFlagged = (Done, sampleConfigured) \<and>
   leaderelector sampleFlagged = None \<and> acmeQueue sampleFlagged = None \<and>
   leaderelector sampleConfigured \<noteq> None \<and> acmeQueue sampleConfigured \<noteq> None \<and>
   fst (OnStoppedLeading sampleConfigured) = Done"
  using elector_iff_acmeQueue [OF sampleConfigured_eq sampleFlagged_eq(3,4)]
    configController_elector [OF sampleConfigured_eq sampleFlagged_eq(2,3,4)]
    sampleConfigured_eq sampleFlagged_eq sampleConfig_acme
  by auto

text \<open>
  C7. After a start-up that completes, the leader elector, the ACME signer (handed to the
  instance), the certificate queue, and the started services of the certificate workflow
  (the run of the elector, the listener of the control socket, the run of the certificate
  queue and the periodic jittered check) exist exactly when \<open>AcmeServer\<close> is enabled.
  When it is disabled all of them are absent, whatever the outcome of the start-up: the
  fields are nil and none of the services was started.
\<close>

theorem acme_components_iff_AcmeServer:
  assumes "startUp e NewHAProxyController = (r, hc)"
  shows "(r = Done \<longrightarrow>
            (leaderelector hc \<noteq> None) = AcmeServer (envConfig e) \<and>
            (acmeQueue hc \<noteq> None) = AcmeServer (envConfig e) \<and>
            (\<exists>io. instance' hc = Some io \<and> AcmeSigner io = AcmeServer (envConfig e)) \<and>
            filter isAcmeService (trace hc) =
              (if AcmeServer (envConfig e)
               then [ElectorRun (electorID (envConfig e)),
                     AcmeServerListen ''/var/run/haproxy/acme.sock'', QueueRun AcmeQ,
                     AcmePeriodicCheck (AcmeCheckPeriod (envConfig e))]
               else [])) \<and>
         (\<not> AcmeServer (envConfig e) \<longrightarrow>
            leaderelector hc = None \<and> acmeQueue hc = None \<and>
            (\<forall>io. instance' hc = Some io \<longrightarrow> \<not> AcmeSigner io) \<and>
            filter isAcmeService (trace hc) = [])"
proof (intro conjI impI)
  assume "r = Done"
  with assms have s: "startUp e NewHAProxyController = (Done, hc)" by simp
  note D = startUp_Done_acme [OF s]
  from D show "(leaderelector hc \<noteq> None) = AcmeServer (envConfig e)" by simp
  from D show "(acmeQueue hc \<noteq> None) = AcmeServer (envConfig e)" by simp
  from D show "\<exists>io. instance' hc = Some io \<and> AcmeSigner io = AcmeServer (envConfig e)" by blast
  from D show "filter isAcmeService (trace hc) =
              (if AcmeServer (envConfig e)
               then [ElectorRun (electorID (envConfig e)),
                     AcmeServerListen ''/var/run/haproxy/acme.sock'', QueueRun AcmeQ,
                     AcmePeriodicCheck (AcmeCheckPeriod (envConfig e))]
               else [])" by blast
next
  assume n: "\<not> AcmeServer (envConfig e)"
  note Q = startUp_noacme [OF assms n]
  from Q show "leaderelector hc = None" by blast
  from Q show "acmeQueue hc = None" by blast
  from Q show "\<forall>io. instance' hc = Some io \<longrightarrow> \<not> AcmeSigner io" by blast
  from Q show "filter isAcmeService (trace hc) = []" by blast
qed

text \<open>The statement at the concrete run, with certificate issuance enabled and
  disabled.\<close>

theorem acme_components_iff_AcmeServer_witness:
  "startUp sampleEnv NewHAProxyController = (Done, sampleStarted) \<and>
   AcmeServer (envConfig sampleEnv) \<and>
   leaderelector sampleStarted \<noteq> None \<and> acmeQueue sampleStarted \<noteq> None \<and>
   (\<exists>io. instance' sampleStarted = Some io \<and> AcmeSigner io) \<and>
   filter isAcmeService (trace sampleStarted) =
     [ElectorRun ''acme-leader-haproxy'', AcmeServerListen ''/var/run/haproxy/acme.sock'',
      QueueRun AcmeQ, AcmePeriodicCheck 86400000000000] \<and>
   fst (startUp sampleEnvNoAcme NewHAProxyController) = Done \<and>
   \<not> AcmeServer (envConfig sampleEnvNoAcme) \<and>
   leaderelector (snd (startUp sampleEnvNoAcme NewHAProxyController)) = None \<and>
   acmeQueue (snd (startUp sampleEnvNoAcme NewHAProxyController)) = None \<and>
   filter isAcmeService (trace (snd (startUp sampleEnvNoAcme NewHAProxyController))) = []"
proof -
  have on: "AcmeServer (envConfig sampleEnv)"
    by (simp add: sampleEnv_def sampleConfig_def)
  have off: "\<not> AcmeServer (envConfig sampleEnvNoAcme)"
    by (simp add: sampleEnvNoAcme_def)
  have s2: "startUp sampleEnvNoAcme NewHAProxyController =
      (Done, snd (startUp sampleEnvNoAcme NewHAProxyController))"
    using sampleEnvNoAcme_Done by (simp add: prod_eq_iff)
  note A = acme_components_iff_AcmeServer [OF sample_startUp]
  note B = acme_components_iff_AcmeServer [OF s2]
  from A on have a: "leaderelector sampleStarted \<noteq> None" "acmeQueue sampleStarted \<noteq> None"
    "\<exists>io. instance' sampleStarted = Some io \<and> AcmeSigner io"
    by auto
  from B off have b: "leaderelector (snd (startUp sampleEnvNoAcme NewHAProxyController)) = None"
    "acmeQueue (snd (startUp sampleEnvNoAcme NewHAProxyController)) = None"
    "filter isAcmeService (trace (snd (startUp sampleEnvNoAcme NewHAProxyController))) = []"
    by auto
  show ?thesis
    using sample_startUp on off a b sampleStarted_acme_trace sampleEnvNoAcme_Done by blast
qed

text \<open>
  C4. The claim reads: with the reload strategy \<open>multibinder\<close> start-up proceeds with a
  warning as if \<open>reusesocket\<close> were selected, the instance being configured with the
  \<open>reusesocket\<close> strategy; with a value outside \<open>native\<close>, \<open>reusesocket\<close>, \<open>multibinder\<close>
  start-up ends with a fatal error before any queue is started. In the code the value
  \<open>multibinder\<close> passes the validation, \<open>configController\<close> logs the warning first, and
  the instance is created with the flag's value unchanged, \<open>multibinder\<close>; when no
  collaborator fails, \<open>Start\<close> reaches its receive with the work queue running. The second
  part holds as stated: \<open>Start\<close> ends with the fatal error, no event has happened and no
  queue exists.
\<close>

theorem reload_strategy_startup:
  "(argReloadStrategy e = Some ''multibinder'' \<longrightarrow>
      (\<exists>r hc io rest. Start e NewHAProxyController = (r, hc) \<and>
         trace hc = GlogWarning multibinderWarning # CreateInstance io # ParseTemplates # rest \<and>
         instance' hc = Some io \<and> ReloadStrategy io = ''multibinder'' \<and>
         r \<noteq> Fatal ''Unsupported reload strategy: multibinder'' \<and>
         (parseTemplatesErr e = None \<and> addCertAuthErr e = None \<and>
          (AcmeServer (envConfig e) \<longrightarrow> listenErr e = None)
            \<longrightarrow> r = Blocked \<and> QueueRun IngressQ \<in> set rest))) \<and>
   (argReloadStrategy e' = Some rs \<and> rs \<notin> {''native'', ''reusesocket'', ''multibinder''} \<longrightarrow>
      (\<exists>hc. Start e' NewHAProxyController = (Fatal (''Unsupported reload strategy: '' @ rs), hc) \<and>
         trace hc = [] \<and> ingressQueue hc = None \<and> acmeQueue hc = None))"
proof (intro conjI impI)
  assume m: "argReloadStrategy e = Some ''multibinder''"
  obtain r0 hc where s: "startUp e NewHAProxyController = (r0, hc)"
    by (cases "startUp e NewHAProxyController")
  from startUp_multibinder [OF m s] obtain io rest where
    h: "trace hc = GlogWarning multibinderWarning # CreateInstance io # ParseTemplates # rest"
       "instance' hc = Some io" "ReloadStrategy io = ''multibinder''"
       "r0 \<noteq> Fatal ''Unsupported reload strategy: multibinder''"
       "r0 = Done \<longrightarrow> QueueRun IngressQ \<in> set rest \<and> stopCh hc \<and>
              controller hc = Some \<lparr>gcConfig = envConfig e, stopClosed = False\<rparr>"
       "parseTemplatesErr e = None \<and> addCertAuthErr e = None \<and>
            (AcmeServer (envConfig e) \<longrightarrow> listenErr e = None) \<longrightarrow> r0 = Done"
    by blast
  have st: "Start e NewHAProxyController = (if r0 = Done then (Blocked, hc) else (r0, hc))"
    using h(5) by (cases r0) (simp_all add: Start_def s awaitStop_def)
  show "\<exists>r hc io rest. Start e NewHAProxyController = (r, hc) \<and>
         trace hc = GlogWarning multibinderWarning # CreateInstance io # ParseTemplates # rest \<and>
         instance' hc = Some io \<and> ReloadStrategy io = ''multibinder'' \<and>
         r \<noteq> Fatal ''Unsupported reload strategy: multibinder'' \<and>
         (parseTemplatesErr e = None \<and> addCertAuthErr e = None \<and>
          (AcmeServer (envConfig e) \<longrightarrow> listenErr e = None)
            \<longrightarrow> r = Blocked \<and> QueueRun IngressQ \<in> set rest)"
    using st h by (cases "r0 = Done") auto
next
  assume b: "argReloadStrategy e' = Some rs \<and> rs \<notin> {''native'', ''reusesocket'', ''multibinder''}"
  obtain r1 h1 where n: "NewIngressController e' NewHAProxyController = (r1, h1)"
    by (cases "NewIngressController e' NewHAProxyController")
  note N = NewIngressController_any [OF n]
  have rs: "reloadStrategy h1 = Some rs" using N b by simp
  have r1: "r1 = Fatal (''Unsupported reload strategy: '' @ rs)"
    using N b rs by auto
  have "Start e' NewHAProxyController = (Fatal (''Unsupported reload strategy: '' @ rs), h1)"
    by (simp add: Start_def startUp_def n r1)
  with N show "\<exists>hc. Start e' NewHAProxyController =
       (Fatal (''Unsupported reload strategy: '' @ rs), hc) \<and>
       trace hc = [] \<and> ingressQueue hc = None \<and> acmeQueue hc = None"
    by blast
qed

text \<open>The statement at the concrete run with \<open>multibinder\<close> and with the unsupported
  value \<open>bogus\<close>.\<close>

theorem reload_strategy_startup_witness:
  "argReloadStrategy multibinderEnv = Some ''multibinder'' \<and>
   fst (Start multibinderEnv NewHAProxyController) = Blocked \<and>
   take 1 (trace (snd (Start multibinderEnv NewHAProxyController))) =
     [GlogWarning multibinderWarning] \<and>
   map_option ReloadStrategy (instance' (snd (Start multibinderEnv NewHAProxyController))) =
     Some ''multibinder'' \<and>
   QueueRun IngressQ \<in> set (trace (snd (Start multibinderEnv NewHAProxyController))) \<and>
   argReloadStrategy bogusEnv = Some ''bogus'' \<and>
   ''bogus'' \<notin> {''native'', ''reusesocket'', ''multibinder''} \<and>
   fst (Start bogusEnv NewHAProxyController) = Fatal ''Unsupported reload strategy: bogus'' \<and>
   trace (snd (Start bogusEnv NewHAProxyController)) = [] \<and>
   ingressQueue (snd (Start bogusEnv NewHAProxyController)) = None"
proof -
  note T = reload_strategy_startup [of multibinderEnv bogusEnv "''bogus''"]
  have b: "argReloadStrategy bogusEnv = Some ''bogus''"
    by (simp add: bogusEnv_def)
  have nb: "''bogus'' \<notin> {''native'', ''reusesocket'', ''multibinder''}"
    by simp
  from T multibinderEnv_fields obtain r hc io rest where
    m: "Start multibinderEnv NewHAProxyController = (r, hc)"
       "trace hc = GlogWarning multibinderWarning # CreateInstance io # ParseTemplates # rest"
       "instance' hc = Some io" "ReloadStrategy io = ''multibinder''"
       "r = Blocked" "QueueRun IngressQ \<in> set rest"
    by auto
  from T b nb obtain hc' where
    f: "Start bogusEnv NewHAProxyController = (Fatal (''Unsupported reload strategy: '' @ ''bogus''), hc')"
       "trace hc' = []" "ingressQueue hc' = None"
    by blast
  show ?thesis
    using m f b nb multibinderEnv_fields(1) by simp
qed

text \<open>The instance of the run with \<open>multibinder\<close> is configured with the strategy
  \<open>multibinder\<close>, not \<open>reusesocket\<close>, and differs from the instance of the run with
  \<open>reusesocket\<close>.\<close>

theorem multibinder_passed_on_counterexample:
  "map_option ReloadStrategy (instance' (snd (Start multibinderEnv NewHAProxyController))) =
     Some ''multibinder'' \<and>
   map_option ReloadStrategy (instance' (snd (Start reusesocketEnv NewHAProxyController))) =
     Some ''reusesocket'' \<and>
   instance' (snd (Start multibinderEnv NewHAProxyController)) \<noteq>
     instance' (snd (Start reusesocketEnv NewHAProxyController))"
  by code_simp

end
